theory Spec2Isabelle
  imports Main "HOL-Library.Word"
begin

section \<open>Values exchanged with the web framework\<close>

text \<open>
  Each \<^verbatim>\<open>server.py\<close> under \<^verbatim>\<open>data/projects/<id>/\<close> registers three Flask handlers and a
  start-up block. The handlers build Python dictionaries and hand them to \<^verbatim>\<open>jsonify\<close>.
  A JSON value is what \<^verbatim>\<open>request.get_json()\<close> hands to the handler and what \<^verbatim>\<open>jsonify\<close>
  receives: Python's \<^verbatim>\<open>None\<close> is \<open>JNull\<close>, an \<^verbatim>\<open>int\<close> is unbounded, a \<^verbatim>\<open>float\<close> is carried
  as its 64-bit pattern (no handler computes with it), a \<^verbatim>\<open>dict\<close> is the list of its
  items in insertion order. The order of the keys carries no meaning in a JSON object;
  \<^verbatim>\<open>jsonify\<close> writes them sorted, which is the same object, and no statement below depends
  on the order.
\<close>

datatype json =
    JNull
  | JBool bool
  | JInt int
  | JFloat "64 word"
  | JStr string
  | JArr "json list"
  | JObj "(string \<times> json) list"

text \<open>How deeply lists and dictionaries are nested in a value; a scalar has depth 0.\<close>

fun max_list :: "nat list \<Rightarrow> nat" where
  "max_list [] = 0"
| "max_list (n # ns) = max n (max_list ns)"

primrec depth :: "json \<Rightarrow> nat" where
  "depth JNull = 0"
| "depth (JBool b) = 0"
| "depth (JInt n) = 0"
| "depth (JFloat x) = 0"
| "depth (JStr s) = 0"
| "depth (JArr vs) = Suc (max_list (map depth vs))"
| "depth (JObj kvs) = Suc (max_list (map snd (map (map_prod id depth) kvs)))"


text \<open>
  What can leave a handler instead of a response: an \<^verbatim>\<open>HTTPException\<close> of werkzeug, which
  carries its status code, or any other Python exception, named by its class. Flask
  answers the first with its code and the second with status 500; the process goes on.
\<close>

datatype exn = HTTPException nat | Unhandled string


text \<open>A Flask response: the status code and the JSON document of the body.\<close>

record response =
  status_code :: nat
  json_body :: json

text \<open>
  \<^verbatim>\<open>jsonify(d)\<close> on a dictionary: the dictionary as the body, with the default status 200.
  The serializer recurses once per level of nesting and raises \<^verbatim>\<open>RecursionError\<close> when the
  interpreter's recursion limit is reached. \<open>room\<close> is the number of levels below the
  top-level dictionary that the process can still serialize; the dictionary itself, with
  scalar values, always fits.
\<close>

definition jsonify :: "nat \<Rightarrow> (string \<times> json) list \<Rightarrow> exn + response" where
  "jsonify room d =
     (if depth (JObj d) \<le> Suc room then Inr \<lparr>status_code = 200, json_body = JObj d\<rparr>
      else Inl (Unhandled ''RecursionError''))"

definition field :: "string \<Rightarrow> response \<Rightarrow> json option" where
  "field k r = (case json_body r of JObj kv \<Rightarrow> map_of kv k | _ \<Rightarrow> None)"

definition field_names :: "response \<Rightarrow> string list" where
  "field_names r = (case json_body r of JObj kv \<Rightarrow> map fst kv | _ \<Rightarrow> [])"


text \<open>
  The framework's part of \<^verbatim>\<open>request.get_json()\<close> is not in the repository, so what it did
  with the request is the handler's input: it parsed the body to a value, it returned
  \<^verbatim>\<open>None\<close> without a parsed value, or it raised an exception. The handler sees a Python
  value or the exception.
\<close>

datatype get_json_outcome = Parsed json | NoValue | Raised exn

fun get_json :: "get_json_outcome \<Rightarrow> exn + json" where
  "get_json (Parsed v) = Inr v"
| "get_json NoValue = Inr JNull"
| "get_json (Raised e) = Inl e"


section \<open>The clock: \<^verbatim>\<open>datetime.now().isoformat()\<close>\<close>

text \<open>
  \<^verbatim>\<open>datetime.now()\<close> reads the local wall clock and returns a naive \<^verbatim>\<open>datetime\<close> (no time
  zone). The reading is an input of each handler call.
\<close>

record datetime =
  year :: nat
  month :: nat
  day :: nat
  hour :: nat
  minute :: nat
  second :: nat
  microsecond :: nat

definition is_leap :: "nat \<Rightarrow> bool" where
  "is_leap y = (y mod 4 = 0 \<and> (y mod 100 \<noteq> 0 \<or> y mod 400 = 0))"

definition days_in_month :: "nat \<Rightarrow> nat \<Rightarrow> nat" where
  "days_in_month y m =
     (if m = 2 then (if is_leap y then 29 else 28)
      else if m = 4 \<or> m = 6 \<or> m = 9 \<or> m = 11 then 30 else 31)"

text \<open>The values a Python \<^verbatim>\<open>datetime\<close> can hold.\<close>

definition valid_datetime :: "datetime \<Rightarrow> bool" where
  "valid_datetime d =
     (1 \<le> year d \<and> year d \<le> 9999 \<and> 1 \<le> month d \<and> month d \<le> 12 \<and>
      1 \<le> day d \<and> day d \<le> days_in_month (year d) (month d) \<and>
      hour d < 24 \<and> minute d < 60 \<and> second d < 60 \<and> microsecond d < 1000000)"

definition digit_char :: "nat \<Rightarrow> char" where
  "digit_char n = char_of (48 + n)"

function digits :: "nat \<Rightarrow> string" where
  "digits n = (if n < 10 then [digit_char n] else digits (n div 10) @ [digit_char (n mod 10)])"
  by pat_completeness auto
termination
  by (relation "measure id") auto

declare digits.simps [simp del]

text \<open>Python's \<^verbatim>\<open>"%0wd" % n\<close> for a natural number: zero-padded to width \<open>w\<close>, never cut.\<close>

definition fmt_d :: "nat \<Rightarrow> nat \<Rightarrow> string" where
  "fmt_d w n = replicate (w - length (digits n)) (CHR ''0'') @ digits n"

text \<open>
  \<^verbatim>\<open>datetime.isoformat()\<close> of a naive datetime: \<^verbatim>\<open>YYYY-MM-DDTHH:MM:SS\<close>, followed by
  \<^verbatim>\<open>.ffffff\<close> unless the microsecond is 0.
\<close>

definition isoformat :: "datetime \<Rightarrow> string" where
  "isoformat d =
     fmt_d 4 (year d) @ ''-'' @ fmt_d 2 (month d) @ ''-'' @ fmt_d 2 (day d) @ ''T'' @
     fmt_d 2 (hour d) @ '':'' @ fmt_d 2 (minute d) @ '':'' @ fmt_d 2 (second d) @
     (if microsecond d = 0 then [] else ''.'' @ fmt_d 6 (microsecond d))"

section \<open>The six instances and their handlers\<close>

datatype inst =
    P_a908e135
  | P_0d5e630e
  | P_89cd361a
  | P_eb43a8a3
  | P_b6f6f351
  | P_acc4aa53

text \<open>The identifier of an instance is the name of the directory that holds its file.\<close>

fun instance_id :: "inst \<Rightarrow> string" where
  "instance_id P_a908e135 = ''a908e135-0a1d-4e2a-8242-bd40240a1383''"
| "instance_id P_0d5e630e = ''0d5e630e-d302-4f92-b4ef-f1645b372a43''"
| "instance_id P_89cd361a = ''89cd361a-94b3-4ffa-bdaa-e6728658f6de''"
| "instance_id P_eb43a8a3 = ''eb43a8a3-f1b3-41e1-a900-885fc864eef7''"
| "instance_id P_b6f6f351 = ''b6f6f351-eac3-48fd-be53-4481db9ade2a''"
| "instance_id P_acc4aa53 = ''acc4aa53-0435-4c50-b4fd-92bc81f3c495''"

text \<open>
  \<^verbatim>\<open>health()\<close>, one equation per file, each with the literal that file holds. The argument
  \<open>now\<close> is the reading of \<^verbatim>\<open>datetime.now()\<close> made by the call, \<open>room\<close> the room the
  process has for \<^verbatim>\<open>jsonify\<close>.
\<close>

fun health :: "nat \<Rightarrow> inst \<Rightarrow> datetime \<Rightarrow> exn + response" where
  "health room P_a908e135 now = jsonify room
     [(''status'', JStr ''healthy''),
      (''timestamp'', JStr (isoformat now)),
      (''project'', JStr ''a908e135-0a1d-4e2a-8242-bd40240a1383'')]"
| "health room P_0d5e630e now = jsonify room
     [(''status'', JStr ''healthy''),
      (''timestamp'', JStr (isoformat now)),
      (''project'', JStr ''0d5e630e-d302-4f92-b4ef-f1645b372a43'')]"
| "health room P_89cd361a now = jsonify room
     [(''status'', JStr ''healthy''),
      (''timestamp'', JStr (isoformat now)),
      (''project'', JStr ''89cd361a-94b3-4ffa-bdaa-e6728658f6de'')]"
| "health room P_eb43a8a3 now = jsonify room
     [(''status'', JStr ''healthy''),
      (''timestamp'', JStr (isoformat now)),
      (''project'', JStr ''eb43a8a3-f1b3-41e1-a900-885fc864eef7'')]"
| "health room P_b6f6f351 now = jsonify room
     [(''status'', JStr ''healthy''),
      (''timestamp'', JStr (isoformat now)),
      (''project'', JStr ''b6f6f351-eac3-48fd-be53-4481db9ade2a'')]"
| "health room P_acc4aa53 now = jsonify room
     [(''status'', JStr ''healthy''),
      (''timestamp'', JStr (isoformat now)),
      (''project'', JStr ''acc4aa53-0435-4c50-b4fd-92bc81f3c495'')]"

text \<open>\<^verbatim>\<open>get_projects()\<close>, one equation per file.\<close>

fun get_projects :: "nat \<Rightarrow> inst \<Rightarrow> datetime \<Rightarrow> exn + response" where
  "get_projects room P_a908e135 now = jsonify room
     [(''message'', JStr ''Projects API endpoint''),
      (''project'', JStr ''a908e135-0a1d-4e2a-8242-bd40240a1383''),
      (''timestamp'', JStr (isoformat now))]"
| "get_projects room P_0d5e630e now = jsonify room
     [(''message'', JStr ''Projects API endpoint''),
      (''project'', JStr ''0d5e630e-d302-4f92-b4ef-f1645b372a43''),
      (''timestamp'', JStr (isoformat now))]"
| "get_projects room P_89cd361a now = jsonify room
     [(''message'', JStr ''Projects API endpoint''),
      (''project'', JStr ''89cd361a-94b3-4ffa-bdaa-e6728658f6de''),
      (''timestamp'', JStr (isoformat now))]"
| "get_projects room P_eb43a8a3 now = jsonify room
     [(''message'', JStr ''Projects API endpoint''),
      (''project'', JStr ''eb43a8a3-f1b3-41e1-a900-885fc864eef7''),
      (''timestamp'', JStr (isoformat now))]"
| "get_projects room P_b6f6f351 now = jsonify room
     [(''message'', JStr ''Projects API endpoint''),
      (''project'', JStr ''b6f6f351-eac3-48fd-be53-4481db9ade2a''),
      (''timestamp'', JStr (isoformat now))]"
| "get_projects room P_acc4aa53 now = jsonify room
     [(''message'', JStr ''Projects API endpoint''),
      (''project'', JStr ''acc4aa53-0435-4c50-b4fd-92bc81f3c495''),
      (''timestamp'', JStr (isoformat now))]"

text \<open>
  \<^verbatim>\<open>create_project()\<close>: the same text in all six files. The handler has no
  \<^verbatim>\<open>try\<close>, so an exception of \<^verbatim>\<open>request.get_json()\<close> leaves it and no dictionary is built,
  and an exception of \<^verbatim>\<open>jsonify\<close> leaves it too.
\<close>

fun create_project :: "nat \<Rightarrow> inst \<Rightarrow> datetime \<Rightarrow> get_json_outcome \<Rightarrow> exn + response" where
  "create_project room P_a908e135 now rq =
     (case get_json rq of
        Inl e \<Rightarrow> Inl e
      | Inr data \<Rightarrow> jsonify room
          [(''message'', JStr ''Project created''),
           (''data'', data),
           (''timestamp'', JStr (isoformat now))])"
| "create_project room P_0d5e630e now rq =
     (case get_json rq of
        Inl e \<Rightarrow> Inl e
      | Inr data \<Rightarrow> jsonify room
          [(''message'', JStr ''Project created''),
           (''data'', data),
           (''timestamp'', JStr (isoformat now))])"
| "create_project room P_89cd361a now rq =
     (case get_json rq of
        Inl e \<Rightarrow> Inl e
      | Inr data \<Rightarrow> jsonify room
          [(''message'', JStr ''Project created''),
           (''data'', data),
           (''timestamp'', JStr (isoformat now))])"
| "create_project room P_eb43a8a3 now rq =
     (case get_json rq of
        Inl e \<Rightarrow> Inl e
      | Inr data \<Rightarrow> jsonify room
          [(''message'', JStr ''Project created''),
           (''data'', data),
           (''timestamp'', JStr (isoformat now))])"
| "create_project room P_b6f6f351 now rq =
     (case get_json rq of
        Inl e \<Rightarrow> Inl e
      | Inr data \<Rightarrow> jsonify room
          [(''message'', JStr ''Project created''),
           (''data'', data),
           (''timestamp'', JStr (isoformat now))])"
| "create_project room P_acc4aa53 now rq =
     (case get_json rq of
        Inl e \<Rightarrow> Inl e
      | Inr data \<Rightarrow> jsonify room
          [(''message'', JStr ''Project created''),
           (''data'', data),
           (''timestamp'', JStr (isoformat now))])"

text \<open>
  The three routes of an instance. A request that reaches a handler is one of these; the
  POST carries what \<^verbatim>\<open>request.get_json()\<close> will do with its body.
\<close>

datatype request = GetHealth | GetProjects | PostProjects get_json_outcome

fun serve :: "nat \<Rightarrow> inst \<Rightarrow> datetime \<Rightarrow> request \<Rightarrow> exn + response" where
  "serve room i now GetHealth = health room i now"
| "serve room i now GetProjects = get_projects room i now"
| "serve room i now (PostProjects rq) = create_project room i now rq"

text \<open>
  A run of one process: the calls in the order they are made, each with the reading its
  \<^verbatim>\<open>datetime.now()\<close> returns. The handlers share no state, so the answers are the
  answers of the single calls.
\<close>

definition run :: "nat \<Rightarrow> inst \<Rightarrow> (datetime \<times> request) list \<Rightarrow> (exn + response) list" where
  "run room i calls = map (\<lambda>(now, rq). serve room i now rq) calls"

fun timestamp_of :: "exn + response \<Rightarrow> string option" where
  "timestamp_of (Inl e) = None"
| "timestamp_of (Inr r) = (case field ''timestamp'' r of Some (JStr t) \<Rightarrow> Some t | _ \<Rightarrow> None)"

definition timestamps :: "(exn + response) list \<Rightarrow> string list" where
  "timestamps rs = List.map_filter timestamp_of rs"

text \<open>
  Putting another identifier in the place where a response embeds one: the \<open>project\<close>
  field of the body.
\<close>

definition rename_project :: "string \<Rightarrow> string \<Rightarrow> response \<Rightarrow> response" where
  "rename_project old new r =
     (case json_body r of
        JObj kv \<Rightarrow>
          r\<lparr>json_body :=
              JObj (map (\<lambda>(k, v). if k = ''project'' \<and> v = JStr old then (k, JStr new) else (k, v)) kv)\<rparr>
      | _ \<Rightarrow> r)"

section \<open>Reading ISO 8601 timestamps\<close>

text \<open>
  What the specification asks of a timestamp, as a reader of the ISO 8601 extended format
  \<^verbatim>\<open>YYYY-MM-DDThh:mm:ss\<close> with an optional fraction of six digits: a string is a valid
  timestamp when the reader accepts it, and timestamps are compared as the instants they
  denote.
\<close>

definition digit_val :: "char \<Rightarrow> nat option" where
  "digit_val c = (let k = of_char c :: nat in if 48 \<le> k \<and> k \<le> 57 then Some (k - 48) else None)"

fun digits_val :: "nat \<Rightarrow> string \<Rightarrow> nat option" where
  "digits_val acc [] = Some acc"
| "digits_val acc (c # cs) =
     (case digit_val c of None \<Rightarrow> None | Some d \<Rightarrow> digits_val (10 * acc + d) cs)"

definition read_iso8601 :: "string \<Rightarrow> datetime option" where
  "read_iso8601 s =
     (if length s \<noteq> 19 \<and> length s \<noteq> 26 then None
      else if s ! 4 \<noteq> CHR ''-'' \<or> s ! 7 \<noteq> CHR ''-'' \<or> s ! 10 \<noteq> CHR ''T'' \<or>
              s ! 13 \<noteq> CHR '':'' \<or> s ! 16 \<noteq> CHR '':'' then None
      else if length s = 26 \<and> s ! 19 \<noteq> CHR ''.'' then None
      else
        (case digits_val 0 (take 4 s) of None \<Rightarrow> None | Some y \<Rightarrow>
        (case digits_val 0 (take 2 (drop 5 s)) of None \<Rightarrow> None | Some mo \<Rightarrow>
        (case digits_val 0 (take 2 (drop 8 s)) of None \<Rightarrow> None | Some d \<Rightarrow>
        (case digits_val 0 (take 2 (drop 11 s)) of None \<Rightarrow> None | Some h \<Rightarrow>
        (case digits_val 0 (take 2 (drop 14 s)) of None \<Rightarrow> None | Some mi \<Rightarrow>
        (case digits_val 0 (take 2 (drop 17 s)) of None \<Rightarrow> None | Some se \<Rightarrow>
        (case digits_val 0 (drop 20 s) of None \<Rightarrow> None | Some us \<Rightarrow>
          (let dt = \<lparr>year = y, month = mo, day = d, hour = h, minute = mi,
                     second = se, microsecond = us\<rparr>
           in if valid_datetime dt then Some dt else None)))))))))"

text \<open>The order of naive datetimes: field by field, the year first.\<close>

fun lex_le :: "nat list \<Rightarrow> nat list \<Rightarrow> bool" where
  "lex_le [] ys = True"
| "lex_le (x # xs) [] = False"
| "lex_le (x # xs) (y # ys) = (x < y \<or> (x = y \<and> lex_le xs ys))"

definition dt_key :: "datetime \<Rightarrow> nat list" where
  "dt_key d = [year d, month d, day d, hour d, minute d, second d, microsecond d]"

definition dt_le :: "datetime \<Rightarrow> datetime \<Rightarrow> bool" where
  "dt_le a b = lex_le (dt_key a) (dt_key b)"

definition ts_le :: "string \<Rightarrow> string \<Rightarrow> bool" where
  "ts_le s t =
     (case read_iso8601 s of None \<Rightarrow> False | Some a \<Rightarrow>
     (case read_iso8601 t of None \<Rightarrow> False | Some b \<Rightarrow> dt_le a b))"

section \<open>Start-up\<close>

datatype py_error = ValueError

record run_args =
  host :: string
  port :: int
  debug :: bool

text \<open>
  The block under \<^verbatim>\<open>if __name__ == '__main__'\<close>, the same text in all six files. The
  environment is the list of the variables that are set. \<^verbatim>\<open>os.environ.get('PORT', 5000)\<close>
  is the string of the variable, or the integer 5000 when the variable is not set; the
  built-in \<^verbatim>\<open>int\<close> leaves an integer as it is and converts a string with \<open>str_int\<close>, whose
  exception nothing catches. The result is the arguments \<^verbatim>\<open>app.run\<close> is called with; what
  \<^verbatim>\<open>app.run\<close> does with them (binding the port) is the framework's.
\<close>

definition main :: "(string \<Rightarrow> py_error + int) \<Rightarrow> (string \<times> string) list \<Rightarrow> py_error + run_args" where
  "main str_int environ =
     (case (case map_of environ ''PORT'' of None \<Rightarrow> Inr 5000 | Some s \<Rightarrow> str_int s) of
        Inl e \<Rightarrow> Inl e
      | Inr p \<Rightarrow> Inr \<lparr>host = ''0.0.0.0'', port = p, debug = True\<rparr>)"

text \<open>
  Python's \<^verbatim>\<open>int\<close> on a string of ASCII characters, in base 10: white space (tab, newline,
  vertical tab, form feed, carriage return, space) around the literal is dropped, one sign may come first, and the digits may be separated by single
  underscores. It stands for \<open>str_int\<close> at concrete inputs; the limit that newer
  interpreters put on the number of digits is left out, and the theorems about \<open>main\<close>
  hold for any conversion.
\<close>

definition py_isspace :: "char \<Rightarrow> bool" where
  "py_isspace c = (let k = of_char c :: nat in (9 \<le> k \<and> k \<le> 13) \<or> k = 32)"

definition strip :: "string \<Rightarrow> string" where
  "strip s = rev (dropWhile py_isspace (rev (dropWhile py_isspace s)))"

fun after_digit :: "nat \<Rightarrow> string \<Rightarrow> nat option" where
  "after_digit acc [] = Some acc"
| "after_digit acc [c] =
     (case digit_val c of None \<Rightarrow> None | Some d \<Rightarrow> Some (10 * acc + d))"
| "after_digit acc (c # c' # cs) =
     (if c = CHR ''_''
      then (case digit_val c' of None \<Rightarrow> None | Some d \<Rightarrow> after_digit (10 * acc + d) cs)
      else (case digit_val c of None \<Rightarrow> None | Some d \<Rightarrow> after_digit (10 * acc + d) (c' # cs)))"

definition unsigned_literal :: "string \<Rightarrow> py_error + int" where
  "unsigned_literal s =
     (case s of
        [] \<Rightarrow> Inl ValueError
      | c # cs \<Rightarrow>
          (case digit_val c of
             None \<Rightarrow> Inl ValueError
           | Some d \<Rightarrow> (case after_digit d cs of None \<Rightarrow> Inl ValueError | Some n \<Rightarrow> Inr (int n))))"

definition py_int :: "string \<Rightarrow> py_error + int" where
  "py_int s =
     (case strip s of
        [] \<Rightarrow> Inl ValueError
      | c # cs \<Rightarrow>
          if c = CHR ''-'' then map_sum id uminus (unsigned_literal cs)
          else if c = CHR ''+'' then unsigned_literal cs
          else unsigned_literal (c # cs))"

section \<open>The creation endpoint\<close>


lemma create_project_eq:
  "create_project room i now rq =
     (case get_json rq of
        Inl e \<Rightarrow> Inl e
      | Inr data \<Rightarrow> jsonify room
          [(''message'', JStr ''Project created''),
           (''data'', data),
           (''timestamp'', JStr (isoformat now))])"
  by (cases i) simp_all

lemma jsonify_created:
  "jsonify room [(''message'', JStr m), (''data'', v), (''timestamp'', JStr t)] =
     (if depth v \<le> room
      then Inr \<lparr>status_code = 200,
                json_body = JObj [(''message'', JStr m), (''data'', v), (''timestamp'', JStr t)]\<rparr>
      else Inl (Unhandled ''RecursionError''))"
  by (simp add: jsonify_def)




text \<open>
  C9. When the parsed value is the JSON value \<open>null\<close>, or \<^verbatim>\<open>get_json\<close> returns \<^verbatim>\<open>None\<close>
  without a value, the handler still answers with status 200, the message
  \<open>Project created\<close> and \<open>data\<close> equal to \<open>null\<close>; the two answers are the same, so a caller
  cannot tell an echoed \<open>null\<close> from an absent payload.
\<close>

theorem null_and_absent_payload_alike:
  "serve room i now (PostProjects (Parsed JNull)) = serve room i now (PostProjects NoValue) \<and>
   (\<exists>r. serve room i now (PostProjects NoValue) = Inr r \<and>
        status_code r = 200 \<and>
        field ''message'' r = Some (JStr ''Project created'') \<and>
        field ''data'' r = Some JNull)"
  by (simp add: create_project_eq jsonify_created field_def)

section \<open>The read-only endpoints\<close>

text \<open>
  C2. \<^verbatim>\<open>GET /health\<close> always succeeds: for every instance and every clock reading the
  handler returns status 200 and a body with exactly the fields \<open>status\<close>, \<open>timestamp\<close> and
  \<open>project\<close>, where \<open>status\<close> is \<open>healthy\<close>. The handler has no other input and no error
  branch.
\<close>

theorem health_always_healthy:
  "serve room i now GetHealth = health room i now \<and>
   (\<exists>r. health room i now = Inr r \<and>
        status_code r = 200 \<and>
        set (field_names r) = {''status'', ''timestamp'', ''project''} \<and>
        distinct (field_names r) \<and>
        field ''status'' r = Some (JStr ''healthy''))"
  by (cases i) (auto simp: jsonify_def field_def field_names_def)

text \<open>
  C6. \<^verbatim>\<open>GET /api/projects\<close> returns status 200 and a body with exactly the fields
  \<open>message\<close>, \<open>project\<close> and \<open>timestamp\<close>, where \<open>message\<close> is \<open>Projects API endpoint\<close>; the
  handler has no input besides the clock.
\<close>

theorem get_projects_static:
  "serve room i now GetProjects = get_projects room i now \<and>
   (\<exists>r. get_projects room i now = Inr r \<and>
        status_code r = 200 \<and>
        set (field_names r) = {''message'', ''project'', ''timestamp''} \<and>
        distinct (field_names r) \<and>
        field ''message'' r = Some (JStr ''Projects API endpoint''))"
  by (cases i) (auto simp: jsonify_def field_def field_names_def)

text \<open>
  C4. In every answer of \<^verbatim>\<open>GET /health\<close> and of \<^verbatim>\<open>GET /api/projects\<close> the \<open>project\<close> field
  is the identifier of the instance, the same string for both endpoints at every time.
\<close>

theorem project_field_is_instance_id:
  "\<exists>r r'. health room i now = Inr r \<and> get_projects room' i now' = Inr r' \<and>
     field ''project'' r = Some (JStr (instance_id i)) \<and>
     field ''project'' r' = Some (JStr (instance_id i))"
  by (cases i) (simp_all add: jsonify_def field_def)

section \<open>The instances compared\<close>

text \<open>
  C7. For every pair of instances \<open>a\<close>, \<open>b\<close> and every request, the answer of \<open>b\<close> is the
  answer of \<open>a\<close> with the identifier of \<open>b\<close> put in place of the identifier of \<open>a\<close>; an
  error is the same error. (The start-up block is one text in all six files.)
\<close>

theorem instances_differ_by_identifier:
  "serve room b now rq =
     map_sum id (rename_project (instance_id a) (instance_id b)) (serve room a now rq)"
proof (cases rq)
  case GetHealth
  then show ?thesis
    by (cases a; cases b) (simp_all add: jsonify_def rename_project_def)
next
  case GetProjects
  then show ?thesis
    by (cases a; cases b) (simp_all add: jsonify_def rename_project_def)
next
  case (PostProjects x)
  then show ?thesis
    by (cases "get_json x") (simp_all add: create_project_eq jsonify_created rename_project_def)
qed

section \<open>The listening port\<close>

text \<open>
  C8. At start-up the port handed to \<^verbatim>\<open>app.run\<close> is 5000 when \<^verbatim>\<open>PORT\<close> is not set, and the
  integer value of \<^verbatim>\<open>PORT\<close> when it is set and has one; the host is \<^verbatim>\<open>0.0.0.0\<close>, all
  interfaces.
\<close>

theorem port_from_environment:
  "(map_of environ ''PORT'' = None \<longrightarrow>
      main str_int environ = Inr \<lparr>host = ''0.0.0.0'', port = 5000, debug = True\<rparr>) \<and>
   (map_of environ ''PORT'' = Some s \<and> str_int s = Inr n \<longrightarrow>
      main str_int environ = Inr \<lparr>host = ''0.0.0.0'', port = n, debug = True\<rparr>)"
  by (simp add: main_def)

theorem port_from_environment_witness:
  "map_of ([] :: (string \<times> string) list) ''PORT'' = None \<and>
   main py_int [] = Inr \<lparr>host = ''0.0.0.0'', port = 5000, debug = True\<rparr> \<and>
   map_of [(''PORT'', ''8080'')] ''PORT'' = Some ''8080'' \<and> py_int ''8080'' = Inr 8080 \<and>
   main py_int [(''PORT'', ''8080'')] = Inr \<lparr>host = ''0.0.0.0'', port = 8080, debug = True\<rparr>"
proof -
  have p: "py_int ''8080'' = Inr 8080" by code_simp
  have a: "map_of [(''PORT'', ''8080'')] ''PORT'' = Some ''8080''" by simp
  from port_from_environment [of "[]" py_int]
  have 1: "main py_int [] = Inr \<lparr>host = ''0.0.0.0'', port = 5000, debug = True\<rparr>" by simp
  from port_from_environment [of "[(''PORT'', ''8080'')]" py_int "''8080''" 8080] a p
  have 2: "main py_int [(''PORT'', ''8080'')] = Inr \<lparr>host = ''0.0.0.0'', port = 8080, debug = True\<rparr>"
    by blast
  from 1 2 a p show ?thesis by simp
qed

text \<open>
  C10. When \<^verbatim>\<open>PORT\<close> is set to a string that the integer conversion rejects, start-up
  ends in the conversion's error; the default 5000 is not used. The default applies only
  when \<^verbatim>\<open>PORT\<close> is not set at all (the empty string is rejected too).
\<close>

theorem bad_port_fails_startup:
  "map_of environ ''PORT'' = Some s \<Longrightarrow> str_int s = Inl e \<Longrightarrow> main str_int environ = Inl e"
  by (simp add: main_def)

theorem bad_port_fails_startup_witness:
  "map_of [(''PORT'', ''abc'')] ''PORT'' = Some ''abc'' \<and> py_int ''abc'' = Inl ValueError \<and>
   main py_int [(''PORT'', ''abc'')] = Inl ValueError \<and>
   map_of [(''PORT'', '''')] ''PORT'' = Some '''' \<and> py_int '''' = Inl ValueError \<and>
   main py_int [(''PORT'', '''')] = Inl ValueError"
proof -
  have p: "py_int ''abc'' = Inl ValueError" by code_simp
  have q: "py_int '''' = Inl ValueError" by code_simp
  have a: "map_of [(''PORT'', ''abc'')] ''PORT'' = Some ''abc''" by simp
  have b: "map_of [(''PORT'', '''')] ''PORT'' = Some ''''" by simp
  show ?thesis
    using bad_port_fails_startup [where str_int = py_int, OF a p]
      bad_port_fails_startup [where str_int = py_int, OF b q] a b p q by simp
qed

section \<open>Failures\<close>



section \<open>Timestamps\<close>

subsection \<open>The reader accepts what \<^verbatim>\<open>isoformat\<close> writes\<close>

lemma digit_val_digit_char: "n < 10 \<Longrightarrow> digit_val (digit_char n) = Some n"
  by (simp add: digit_val_def digit_char_def)

lemma digit_val_zero: "digit_val (CHR ''0'') = Some 0"
  by (simp add: digit_val_def)

lemma digits_val_append:
  "digits_val acc (xs @ ys) =
     (case digits_val acc xs of None \<Rightarrow> None | Some a \<Rightarrow> digits_val a ys)"
  by (induction xs arbitrary: acc) (simp_all split: option.splits)

lemma digits_val_digits: "digits_val 0 (digits n) = Some n"
proof (induction n rule: digits.induct)
  case (1 n)
  show ?case
  proof (cases "n < 10")
    case True
    then show ?thesis
      by (subst digits.simps) (simp add: digit_val_digit_char)
  next
    case False
    with 1 have "digits_val 0 (digits (n div 10)) = Some (n div 10)" by simp
    with False show ?thesis
      by (subst digits.simps) (simp add: digits_val_append digit_val_digit_char)
  qed
qed

lemma digits_val_zeros: "digits_val 0 (replicate k (CHR ''0'') @ xs) = digits_val 0 xs"
  by (induction k) (simp_all add: digit_val_zero)

lemma digits_val_fmt_d: "digits_val 0 (fmt_d w n) = Some n"
  by (simp add: fmt_d_def digits_val_zeros digits_val_digits)

lemma length_digits: "0 < w \<Longrightarrow> n < 10 ^ w \<Longrightarrow> length (digits n) \<le> w"
proof (induction n arbitrary: w rule: digits.induct)
  case (1 n)
  show ?case
  proof (cases "n < 10")
    case True
    with 1 show ?thesis by (subst digits.simps) simp
  next
    case False
    from 1(2) obtain v where w: "w = Suc v" by (cases w) auto
    from False 1(3) w have v: "0 < v" by (cases v) auto
    from 1(3) w have "n div 10 < 10 ^ v" by (simp add: less_mult_imp_div_less mult.commute)
    with 1(1) False v have "length (digits (n div 10)) \<le> v" by blast
    with False w show ?thesis by (subst digits.simps) simp
  qed
qed

lemma length_fmt_d: "0 < w \<Longrightarrow> n < 10 ^ w \<Longrightarrow> length (fmt_d w n) = w"
  using length_digits [of w n] by (simp add: fmt_d_def)

lemma days_in_month_le: "days_in_month y m \<le> 31"
  by (simp add: days_in_month_def)

lemma pieces:
  assumes "length y = 4" "length mo = 2" "length d = 2" "length h = 2" "length mi = 2"
    "length se = 2"
    and s: "s = y @ ''-'' @ mo @ ''-'' @ d @ ''T'' @ h @ '':'' @ mi @ '':'' @ se @ f"
  shows "length s = 19 + length f"
    and "s ! 4 = CHR ''-''" and "s ! 7 = CHR ''-''" and "s ! 10 = CHR ''T''"
    and "s ! 13 = CHR '':''" and "s ! 16 = CHR '':''"
    and "take 4 s = y" and "take 2 (drop 5 s) = mo" and "take 2 (drop 8 s) = d"
    and "take 2 (drop 11 s) = h" and "take 2 (drop 14 s) = mi" and "take 2 (drop 17 s) = se"
    and "drop 19 s = f"
  using assms(1-6) unfolding s by (simp_all add: nth_append)

lemma read_isoformat:
  assumes "valid_datetime d"
  shows "read_iso8601 (isoformat d) = Some d"
proof -
  from assms have b: "year d < 10 ^ 4" "month d < 10 ^ 2" "day d < 10 ^ 2" "hour d < 10 ^ 2"
    "minute d < 10 ^ 2" "second d < 10 ^ 2" "microsecond d < 10 ^ 6"
    using days_in_month_le [of "year d" "month d"] by (simp_all add: valid_datetime_def)
  have l: "length (fmt_d 4 (year d)) = 4" "length (fmt_d 2 (month d)) = 2"
    "length (fmt_d 2 (day d)) = 2" "length (fmt_d 2 (hour d)) = 2"
    "length (fmt_d 2 (minute d)) = 2" "length (fmt_d 2 (second d)) = 2"
    and l6: "length (fmt_d 6 (microsecond d)) = 6"
    using b by (simp_all add: length_fmt_d del: power_numeral)
  define f where "f = (if microsecond d = 0 then [] else ''.'' @ fmt_d 6 (microsecond d))"
  define s where "s = isoformat d"
  have s: "s = fmt_d 4 (year d) @ ''-'' @ fmt_d 2 (month d) @ ''-'' @ fmt_d 2 (day d) @ ''T'' @
     fmt_d 2 (hour d) @ '':'' @ fmt_d 2 (minute d) @ '':'' @ fmt_d 2 (second d) @ f"
    by (simp add: s_def isoformat_def f_def)
  note p = pieces [OF l s]
  have len: "length s = 19 \<or> (length s = 26 \<and> s ! 19 = CHR ''.'')"
    using p(1) p(13) l6 by (auto simp: f_def hd_drop_conv_nth [symmetric])
  have us: "digits_val 0 (drop 20 s) = Some (microsecond d)"
  proof -
    have "drop 20 s = drop 1 (drop 19 s)" by simp
    also have "\<dots> = drop 1 f" by (simp only: p(13))
    finally show ?thesis by (simp add: f_def digits_val_fmt_d)
  qed
  have c1: "\<not> (length s \<noteq> 19 \<and> length s \<noteq> 26)"
    using len by blast
  have c2: "\<not> (s ! 4 \<noteq> CHR ''-'' \<or> s ! 7 \<noteq> CHR ''-'' \<or> s ! 10 \<noteq> CHR ''T'' \<or>
              s ! 13 \<noteq> CHR '':'' \<or> s ! 16 \<noteq> CHR '':'')"
    by (simp add: p(2-6))
  have c3: "\<not> (length s = 26 \<and> s ! 19 \<noteq> CHR ''.'')"
    using len by auto
  have r: "\<lparr>year = year d, month = month d, day = day d, hour = hour d, minute = minute d,
            second = second d, microsecond = microsecond d\<rparr> = d"
    by simp
  have "read_iso8601 s = Some d"
    unfolding read_iso8601_def
    by (simp only: c1 c2 c3 if_False if_True p(7-12) us digits_val_fmt_d option.case Let_def r assms)
  then show ?thesis by (simp add: s_def)
qed

lemma ts_le_isoformat:
  "valid_datetime a \<Longrightarrow> valid_datetime b \<Longrightarrow> ts_le (isoformat a) (isoformat b) = dt_le a b"
  by (simp add: ts_le_def read_isoformat)


subsection \<open>The timestamps of a run\<close>

lemma timestamp_of_serve:
  "timestamp_of (serve room i now rq) = (if isl (serve room i now rq) then None else Some (isoformat now))"
proof (cases rq)
  case GetHealth
  then show ?thesis by (cases i) (simp_all add: jsonify_def field_def)
next
  case GetProjects
  then show ?thesis by (cases i) (simp_all add: jsonify_def field_def)
next
  case (PostProjects x)
  then show ?thesis
    by (cases "get_json x") (simp_all add: create_project_eq jsonify_created field_def)
qed

lemma timestamps_run:
  "timestamps (run room i calls) =
     map (isoformat \<circ> fst) (filter (\<lambda>c. \<not> isl (serve room i (fst c) (snd c))) calls)"
proof (induction calls)
  case Nil
  show ?case by (simp add: timestamps_def run_def map_filter_simps)
next
  case (Cons c calls)
  obtain now rq where c: "c = (now, rq)" by (cases c)
  from Cons show ?case
    by (simp add: timestamps_def run_def map_filter_simps c timestamp_of_serve)
qed

lemma digit_char_simps:
  "digit_char 0 = CHR ''0''" "digit_char 1 = CHR ''1''" "digit_char 2 = CHR ''2''"
  "digit_char 3 = CHR ''3''" "digit_char 4 = CHR ''4''" "digit_char 5 = CHR ''5''"
  "digit_char 6 = CHR ''6''" "digit_char 7 = CHR ''7''" "digit_char 8 = CHR ''8''"
  "digit_char 9 = CHR ''9''" "digit_char (Suc 0) = CHR ''1''"
  by (simp_all add: digit_char_def char_of_eq_iff)

lemma replicate_num: "replicate (numeral k) x = x # replicate (pred_numeral k) x"
  by (simp add: numeral_eq_Suc)

lemmas eval_isoformat = isoformat_def fmt_d_def digits.simps digit_char_simps replicate_num

text \<open>
  C5 (as amended). Every timestamp returned by any of the three endpoints is the
  \<^verbatim>\<open>isoformat\<close> of the wall-clock reading of its call, a valid ISO 8601 string. Across the
  calls of one process the timestamps are non-decreasing whenever the wall-clock readings
  are; the code does nothing to keep them in order when the wall clock is set back.
\<close>

theorem timestamps_follow_clock:
  assumes v: "\<forall>c \<in> set calls. valid_datetime (fst c)"
  shows "(\<forall>t \<in> set (timestamps (run room i calls)). \<exists>d. valid_datetime d \<and> read_iso8601 t = Some d) \<and>
         (sorted_wrt dt_le (map fst calls) \<longrightarrow> sorted_wrt ts_le (timestamps (run room i calls)))"
proof (intro conjI impI)
  show "\<forall>t \<in> set (timestamps (run room i calls)). \<exists>d. valid_datetime d \<and> read_iso8601 t = Some d"
    using v by (auto simp: timestamps_run read_isoformat)
next
  let ?ok = "\<lambda>c. \<not> isl (serve room i (fst c) (snd c))"
  assume "sorted_wrt dt_le (map fst calls)"
  then have "sorted_wrt (\<lambda>a b. dt_le (fst a) (fst b)) calls"
    by (simp add: sorted_wrt_map)
  then have "sorted_wrt (\<lambda>a b. dt_le (fst a) (fst b)) (filter ?ok calls)"
    by (rule sorted_wrt_filter)
  then have "sorted_wrt (\<lambda>a b. ts_le (isoformat (fst a)) (isoformat (fst b))) (filter ?ok calls)"
  proof (rule sorted_wrt_mono_rel [rotated])
    fix a b
    assume "a \<in> set (filter ?ok calls)" "b \<in> set (filter ?ok calls)" "dt_le (fst a) (fst b)"
    with v show "ts_le (isoformat (fst a)) (isoformat (fst b))"
      by (simp add: ts_le_isoformat)
  qed
  then show "sorted_wrt ts_le (timestamps (run room i calls))"
    by (simp add: timestamps_run sorted_wrt_map)
qed

theorem timestamps_follow_clock_witness:
  "valid_datetime \<lparr>year = 2024, month = 11, day = 3, hour = 1, minute = 0, second = 0, microsecond = 0\<rparr> \<and>
   valid_datetime \<lparr>year = 2024, month = 11, day = 3, hour = 1, minute = 0, second = 0, microsecond = 250\<rparr> \<and>
   sorted_wrt dt_le
     [\<lparr>year = 2024, month = 11, day = 3, hour = 1, minute = 0, second = 0, microsecond = 0\<rparr>,
      \<lparr>year = 2024, month = 11, day = 3, hour = 1, minute = 0, second = 0, microsecond = 250\<rparr>] \<and>
   timestamps (run 991 P_0d5e630e
     [(\<lparr>year = 2024, month = 11, day = 3, hour = 1, minute = 0, second = 0, microsecond = 0\<rparr>, GetHealth),
      (\<lparr>year = 2024, month = 11, day = 3, hour = 1, minute = 0, second = 0, microsecond = 250\<rparr>,
       PostProjects (Parsed (JObj [(''name'', JStr ''demo'')])))]) =
     [''2024-11-03T01:00:00'', ''2024-11-03T01:00:00.000250''] \<and>
   sorted_wrt ts_le (timestamps (run 991 P_0d5e630e
     [(\<lparr>year = 2024, month = 11, day = 3, hour = 1, minute = 0, second = 0, microsecond = 0\<rparr>, GetHealth),
      (\<lparr>year = 2024, month = 11, day = 3, hour = 1, minute = 0, second = 0, microsecond = 250\<rparr>,
       PostProjects (Parsed (JObj [(''name'', JStr ''demo'')])))]))"
proof -
  let ?t1 = "\<lparr>year = 2024, month = 11, day = 3, hour = 1, minute = 0, second = 0, microsecond = 0\<rparr>"
  let ?t2 = "\<lparr>year = 2024, month = 11, day = 3, hour = 1, minute = 0, second = 0, microsecond = 250\<rparr>"
  let ?calls = "[(?t1, GetHealth), (?t2, PostProjects (Parsed (JObj [(''name'', JStr ''demo'')])))]"
  have v1: "valid_datetime ?t1" and v2: "valid_datetime ?t2"
    by (simp_all add: valid_datetime_def days_in_month_def)
  have s: "sorted_wrt dt_le [?t1, ?t2]"
    by (simp add: dt_le_def dt_key_def)
  have e: "timestamps (run 991 P_0d5e630e ?calls) = [''2024-11-03T01:00:00'', ''2024-11-03T01:00:00.000250'']"
    by (simp add: timestamps_def run_def map_filter_simps jsonify_def field_def eval_isoformat)
  from v1 v2 have "\<forall>c \<in> set ?calls. valid_datetime (fst c)" by simp
  from timestamps_follow_clock [OF this, of 991 P_0d5e630e] s
  have "sorted_wrt ts_le (timestamps (run 991 P_0d5e630e ?calls))" by simp
  with v1 v2 s e show ?thesis by blast
qed

text \<open>
  The claim as the specification has it fails when the wall clock goes back between two
  calls, as the local time does at the end of daylight saving time: the second timestamp
  is the smaller one.
\<close>

theorem clock_set_back_counterexample:
  "valid_datetime \<lparr>year = 2024, month = 11, day = 3, hour = 1, minute = 59, second = 59, microsecond = 0\<rparr> \<and>
   valid_datetime \<lparr>year = 2024, month = 11, day = 3, hour = 1, minute = 0, second = 0, microsecond = 0\<rparr> \<and>
   timestamps (run 991 P_0d5e630e
     [(\<lparr>year = 2024, month = 11, day = 3, hour = 1, minute = 59, second = 59, microsecond = 0\<rparr>, GetHealth),
      (\<lparr>year = 2024, month = 11, day = 3, hour = 1, minute = 0, second = 0, microsecond = 0\<rparr>, GetHealth)]) =
     [''2024-11-03T01:59:59'', ''2024-11-03T01:00:00''] \<and>
   \<not> sorted_wrt ts_le (timestamps (run 991 P_0d5e630e
     [(\<lparr>year = 2024, month = 11, day = 3, hour = 1, minute = 59, second = 59, microsecond = 0\<rparr>, GetHealth),
      (\<lparr>year = 2024, month = 11, day = 3, hour = 1, minute = 0, second = 0, microsecond = 0\<rparr>, GetHealth)]))"
proof -
  let ?t1 = "\<lparr>year = 2024, month = 11, day = 3, hour = 1, minute = 59, second = 59, microsecond = 0\<rparr>"
  let ?t2 = "\<lparr>year = 2024, month = 11, day = 3, hour = 1, minute = 0, second = 0, microsecond = 0\<rparr>"
  let ?calls = "[(?t1, GetHealth), (?t2, GetHealth)]"
  have v1: "valid_datetime ?t1" and v2: "valid_datetime ?t2"
    by (simp_all add: valid_datetime_def days_in_month_def)
  have r: "timestamps (run 991 P_0d5e630e ?calls) = [isoformat ?t1, isoformat ?t2]"
    by (simp add: timestamps_def run_def map_filter_simps jsonify_def field_def)
  have e: "isoformat ?t1 = ''2024-11-03T01:59:59''" "isoformat ?t2 = ''2024-11-03T01:00:00''"
    by (simp_all add: eval_isoformat)
  have "\<not> dt_le ?t1 ?t2"
    by (simp add: dt_le_def dt_key_def)
  with v1 v2 have "\<not> ts_le (isoformat ?t1) (isoformat ?t2)"
    by (simp only: ts_le_isoformat not_False_eq_True)
  then have "\<not> sorted_wrt ts_le (timestamps (run 991 P_0d5e630e ?calls))"
    by (simp only: r sorted_wrt.simps list.set ball_simps simp_thms)
  with v1 v2 r e show ?thesis by simp
qed

end
